theory Spec2Isabelle
  imports Main
begin

section \<open>Values of requests and responses\<close>

text \<open>
  The Account service (\<^verbatim>\<open>service/routes.py\<close>) is a Flask route layer over one
  record type. A handler reads the request (its Content-Type header and its JSON body),
  calls the persistence methods of \<^verbatim>\<open>Account\<close> and answers with a response or
  raises. Here a handler is a function from the database and the request to an outcome and
  the database afterwards; every \<^verbatim>\<open>abort\<close> and every raised exception is a value.
\<close>

text \<open>
  Modelled from the spec: the value type of \<^verbatim>\<open>date_joined\<close>. The spec gives the
  field the semantic type "date value" and does not fix its wire syntax, so a date is an
  alternative of its own among the JSON values below.
\<close>

datatype date = Date (year: nat) (month: nat) (day: nat)

text \<open>
  What \<^verbatim>\<open>request.get_json()\<close> returns and what \<^verbatim>\<open>jsonify\<close> takes. A JSON
  object is the Python dict the parser built, kept as an association list read with
  \<^const>\<open>map_of\<close>.
\<close>

datatype json =
    JNull
  | JBool bool
  | JNum int
  | JText string
  | JDate date
  | JList "json list"
  | JDict "(string \<times> json) list"

text \<open>The status codes of \<^verbatim>\<open>service.common.status\<close> that the routes use.\<close>

abbreviation HTTP_200_OK :: nat where "HTTP_200_OK \<equiv> 200"
abbreviation HTTP_201_CREATED :: nat where "HTTP_201_CREATED \<equiv> 201"
abbreviation HTTP_204_NO_CONTENT :: nat where "HTTP_204_NO_CONTENT \<equiv> 204"
abbreviation HTTP_400_BAD_REQUEST :: nat where "HTTP_400_BAD_REQUEST \<equiv> 400"
abbreviation HTTP_404_NOT_FOUND :: nat where "HTTP_404_NOT_FOUND \<equiv> 404"
abbreviation HTTP_415_UNSUPPORTED_MEDIA_TYPE :: nat where "HTTP_415_UNSUPPORTED_MEDIA_TYPE \<equiv> 415"
abbreviation HTTP_500_INTERNAL_SERVER_ERROR :: nat where "HTTP_500_INTERNAL_SERVER_ERROR \<equiv> 500"

text \<open>
  Everything a handler can raise: \<^verbatim>\<open>abort(status, description)\<close> of Flask, the
  validation error of \<^verbatim>\<open>Account.deserialize\<close>, the two Python errors of a
  subscript, and a failure of the persistence layer.
\<close>

datatype exn =
    HTTPException nat string
  | DataValidationError string
  | KeyError string
  | TypeError string
  | PersistenceError string

text \<open>
  The request as the handlers read it: \<^verbatim>\<open>request.headers.get("Content-Type")\<close>
  (\<open>None\<close> when the header is absent) and the body as the JSON parser sees it
  (\<open>None\<close> when the body is not parseable JSON).
\<close>

record request =
  content_type :: "string option"
  json_body :: "json option"

text \<open>The body of a response: \<^verbatim>\<open>jsonify(...)\<close> or a plain string.\<close>

datatype payload = Json json | Raw string

record response =
  status :: nat
  body :: payload
  headers :: "(string \<times> string) list"

type_synonym outcome = "exn + response"

definition make_response :: "payload \<Rightarrow> nat \<Rightarrow> (string \<times> string) list \<Rightarrow> response" where
  "make_response b s h = \<lparr>status = s, body = b, headers = h\<rparr>"

text \<open>
  Modelled from the spec: the error handlers of
  \<^verbatim>\<open>service/common/error_handlers.py\<close>, which is not among the sources. The
  status the client sees: a response carries its own; \<^verbatim>\<open>abort(n, ...)\<close> answers
  \<open>n\<close>; the validation error of deserialization is surfaced as 400; a persistence
  failure, like any exception that no route catches, is a generic server error, which
  Flask answers with 500.
\<close>

fun http_status :: "outcome \<Rightarrow> nat" where
  "http_status (Inr r) = status r"
| "http_status (Inl (HTTPException n m)) = n"
| "http_status (Inl (DataValidationError m)) = HTTP_400_BAD_REQUEST"
| "http_status (Inl (KeyError k)) = HTTP_500_INTERNAL_SERVER_ERROR"
| "http_status (Inl (TypeError m)) = HTTP_500_INTERNAL_SERVER_ERROR"
| "http_status (Inl (PersistenceError m)) = HTTP_500_INTERNAL_SERVER_ERROR"

section \<open>Reading the request\<close>

text \<open>
  \<^verbatim>\<open>check_content_type(media_type)\<close>: returns when the header is a non-empty string
  equal to the media type, aborts with 415 otherwise.
\<close>

definition check_content_type :: "string \<Rightarrow> request \<Rightarrow> exn + unit" where
  "check_content_type media_type req =
     (case content_type req of
        None \<Rightarrow> Inl (HTTPException HTTP_415_UNSUPPORTED_MEDIA_TYPE
                       (''Content-Type must be '' @ media_type))
      | Some ct \<Rightarrow>
          if ct \<noteq> [] \<and> ct = media_type then Inr ()
          else Inl (HTTPException HTTP_415_UNSUPPORTED_MEDIA_TYPE
                      (''Content-Type must be '' @ media_type)))"

text \<open>
  \<^verbatim>\<open>request.get_json()\<close>, called by every handler after the content type has been
  checked: the parsed body, or Flask's 400 when the body does not parse.
\<close>

definition get_json :: "request \<Rightarrow> exn + json" where
  "get_json req =
     (case json_body req of
        None \<Rightarrow> Inl (HTTPException HTTP_400_BAD_REQUEST ''Failed to decode JSON object'')
      | Some j \<Rightarrow> Inr j)"

text \<open>
  The Python subscript \<^verbatim>\<open>data["id"]\<close>: a dict without the key raises
  \<^verbatim>\<open>KeyError\<close>, a value that is not a dict raises \<^verbatim>\<open>TypeError\<close>.
\<close>

fun getitem :: "json \<Rightarrow> string \<Rightarrow> exn + json" where
  "getitem (JDict d) k = (case map_of d k of None \<Rightarrow> Inl (KeyError k) | Some v \<Rightarrow> Inr v)"
| "getitem (JText s) k = Inl (TypeError ''string indices must be integers'')"
| "getitem (JList xs) k = Inl (TypeError ''list indices must be integers or slices'')"
| "getitem j k = Inl (TypeError ''object is not subscriptable'')"

section \<open>The Account record and its persistence\<close>

text \<open>
  Modelled from the spec: the class \<^verbatim>\<open>Account\<close> of \<^verbatim>\<open>service/models.py\<close>,
  which is not among the sources. Its attributes are those of the spec's data model; the
  identifier is unset until the persistence layer assigns it.
\<close>

record account =
  id :: "int option"
  name :: string
  email :: string
  address :: string
  phone_number :: string
  date_joined :: date

text \<open>
  Modelled from the spec: \<^verbatim>\<open>Account()\<close>, a record with no field set. Every field
  but the identifier is assigned by \<open>deserialize\<close> before the record is used, so the
  unset fields are written as empty values.
\<close>

definition Account :: account where
  "Account = \<lparr>id = None, name = [], email = [], address = [], phone_number = [],
              date_joined = Date 0 0 0\<rparr>"

text \<open>
  Modelled from the spec: \<^verbatim>\<open>Account.serialize\<close>, the record fully serialized, the
  identifier included.
\<close>

definition serialize :: "account \<Rightarrow> json" where
  "serialize a = JDict
     [(''id'', (case id a of None \<Rightarrow> JNull | Some i \<Rightarrow> JNum i)),
      (''name'', JText (name a)),
      (''email'', JText (email a)),
      (''address'', JText (address a)),
      (''phone_number'', JText (phone_number a)),
      (''date_joined'', JDate (date_joined a))]"

text \<open>
  Modelled from the spec: reading one text attribute of the payload. A missing field and
  a value of the wrong type are validation errors.
\<close>

definition text_field :: "(string \<times> json) list \<Rightarrow> string \<Rightarrow> exn + string" where
  "text_field d k =
     (case map_of d k of
        None \<Rightarrow> Inl (DataValidationError (''Invalid Account: missing '' @ k))
      | Some (JText s) \<Rightarrow> Inr s
      | Some _ \<Rightarrow> Inl (DataValidationError (''Invalid Account: bad type for '' @ k)))"

text \<open>
  Modelled from the spec: \<open>date_joined\<close> is a date value, defaulted (to the current
  day) if not supplied.
\<close>

definition date_field :: "date \<Rightarrow> (string \<times> json) list \<Rightarrow> exn + date" where
  "date_field today d =
     (case map_of d ''date_joined'' of
        None \<Rightarrow> Inr today
      | Some (JDate x) \<Rightarrow> Inr x
      | Some _ \<Rightarrow> Inl (DataValidationError ''Invalid Account: bad type for date_joined''))"

text \<open>
  Modelled from the spec: \<^verbatim>\<open>Account.deserialize\<close>. The body must deserialize into
  a valid Account: a JSON object with \<open>name\<close> (non-empty text), \<open>email\<close>,
  \<open>address\<close> and \<open>phone_number\<close> (text) and, optionally, \<open>date_joined\<close>.
  Every field of the record but the identifier is overwritten; nothing is persisted.
\<close>

definition deserialize :: "date \<Rightarrow> account \<Rightarrow> json \<Rightarrow> exn + account" where
  "deserialize today a data =
     (case data of
        JDict d \<Rightarrow>
          (case text_field d ''name'' of Inl e \<Rightarrow> Inl e | Inr n \<Rightarrow>
           if n = [] then Inl (DataValidationError ''Invalid Account: empty name'') else
          (case text_field d ''email'' of Inl e \<Rightarrow> Inl e | Inr m \<Rightarrow>
          (case text_field d ''address'' of Inl e \<Rightarrow> Inl e | Inr ad \<Rightarrow>
          (case text_field d ''phone_number'' of Inl e \<Rightarrow> Inl e | Inr p \<Rightarrow>
          (case date_field today d of Inl e \<Rightarrow> Inl e | Inr dj \<Rightarrow>
             Inr (a\<lparr>name := n, email := m, address := ad, phone_number := p,
                     date_joined := dj\<rparr>))))))
      | _ \<Rightarrow> Inl (DataValidationError
                  ''Invalid Account: body of request contained bad or no data''))"

text \<open>
  Modelled from the spec: the persistent storage behind \<^verbatim>\<open>Account\<close>. The
  storage is the rows, in the order of their insertion, and the next identifier the
  persistence layer hands out (identifiers are never reused). Beside it the database
  keeps the log of the persistence calls made so far, latest last, so that the order of
  validation and persistence can be stated; the log is not part of the storage.
\<close>

datatype pcall = Create | Find | All | Update | Delete

record db =
  rows :: "account list"
  next_id :: int
  calls :: "pcall list"

definition init_db :: db where
  "init_db = \<lparr>rows = [], next_id = 1, calls = []\<rparr>"

text \<open>
  Modelled from the spec: \<^verbatim>\<open>create(record) -> record_with_id\<close>; inserts one row
  under a fresh identifier.
\<close>

definition create :: "db \<Rightarrow> account \<Rightarrow> account \<times> db" where
  "create s a =
     (let a' = a\<lparr>id := Some (next_id s)\<rparr>
      in (a', s\<lparr>rows := rows s @ [a'], next_id := next_id s + 1,
                calls := calls s @ [Create]\<rparr>))"

text \<open>
  Modelled from the spec: \<^verbatim>\<open>find(id) -> record | absent\<close>. The identifier is
  whatever JSON value the request carried; only a number can name a stored Account.
\<close>

definition find_account :: "db \<Rightarrow> json \<Rightarrow> account option \<times> db" where
  "find_account s v =
     ((case v of
         JNum i \<Rightarrow> List.find (\<lambda>r. id r = Some i) (rows s)
       | _ \<Rightarrow> None),
      s\<lparr>calls := calls s @ [Find]\<rparr>)"

text \<open>Modelled from the spec: \<^verbatim>\<open>all() -> sequence of record\<close>.\<close>

definition all_accounts :: "db \<Rightarrow> account list \<times> db" where
  "all_accounts s = (rows s, s\<lparr>calls := calls s @ [All]\<rparr>)"

text \<open>
  Modelled from the spec: \<^verbatim>\<open>update(record) -> record | fails\<close>; the stored row of
  the record's identifier is replaced by the record, and the update fails when there is
  no such row.
\<close>

definition update :: "db \<Rightarrow> account \<Rightarrow> (exn + unit) \<times> db" where
  "update s a =
     (if id a \<noteq> None \<and> id a \<in> set (map id (rows s))
      then (Inr (), s\<lparr>rows := map (\<lambda>r. if id r = id a then a else r) (rows s),
                       calls := calls s @ [Update]\<rparr>)
      else (Inl (PersistenceError ''Update called with an unknown id''),
            s\<lparr>calls := calls s @ [Update]\<rparr>))"

text \<open>
  Modelled from the spec: \<^verbatim>\<open>delete(record) -> (void, idempotent)\<close>; the row of
  the record's identifier is removed.
\<close>

definition delete :: "db \<Rightarrow> account \<Rightarrow> db" where
  "delete s a = s\<lparr>rows := filter (\<lambda>r. id r \<noteq> id a) (rows s),
                  calls := calls s @ [Delete]\<rparr>"

section \<open>The routes\<close>

text \<open>
  Each handler takes the database and the request and returns its outcome and the
  database afterwards. The handlers that deserialize a body also take the current day,
  the default of \<open>date_joined\<close>.
\<close>

text \<open>\<^verbatim>\<open>GET /health\<close>\<close>

definition health :: "db \<Rightarrow> request \<Rightarrow> outcome \<times> db" where
  "health s req =
     (Inr (make_response (Json (JDict [(''status'', JText ''OK'')])) HTTP_200_OK []), s)"

text \<open>\<^verbatim>\<open>GET /\<close>\<close>

definition index :: "db \<Rightarrow> request \<Rightarrow> outcome \<times> db" where
  "index s req =
     (Inr (make_response
             (Json (JDict [(''name'', JText ''Account REST API Service''),
                           (''version'', JText ''1.0'')]))
             HTTP_200_OK []), s)"

text \<open>\<^verbatim>\<open>POST /accounts\<close>\<close>

definition create_accounts :: "date \<Rightarrow> db \<Rightarrow> request \<Rightarrow> outcome \<times> db" where
  "create_accounts today s req =
     (case check_content_type ''application/json'' req of
        Inl e \<Rightarrow> (Inl e, s)
      | Inr u \<Rightarrow>
     (case get_json req of
        Inl e \<Rightarrow> (Inl e, s)
      | Inr data \<Rightarrow>
     (case deserialize today Account data of
        Inl e \<Rightarrow> (Inl e, s)
      | Inr account \<Rightarrow>
          (let (account', s') = create s account;
               message = serialize account';
               location_url = ''/''
           in (Inr (make_response (Json message) HTTP_201_CREATED
                      [(''Location'', location_url)]), s')))))"

text \<open>\<^verbatim>\<open>GET /accounts/all\<close>\<close>

definition read_all_accounts :: "db \<Rightarrow> request \<Rightarrow> outcome \<times> db" where
  "read_all_accounts s req =
     (let (accounts, s') = all_accounts s;
          accountList = map serialize accounts
      in (Inr (make_response (Json (JList accountList)) HTTP_200_OK []), s'))"

text \<open>\<^verbatim>\<open>GET /accounts\<close>\<close>

definition read_account :: "db \<Rightarrow> request \<Rightarrow> outcome \<times> db" where
  "read_account s req =
     (case check_content_type ''application/json'' req of
        Inl e \<Rightarrow> (Inl e, s)
      | Inr u \<Rightarrow>
     (case get_json req of
        Inl e \<Rightarrow> (Inl e, s)
      | Inr data \<Rightarrow>
     (case getitem data ''id'' of
        Inl e \<Rightarrow> (Inl e, s)
      | Inr accountId \<Rightarrow>
          (let (found, s') = find_account s accountId
           in (case found of
                 None \<Rightarrow>
                   (Inl (HTTPException HTTP_404_NOT_FOUND ''The account cannot be found''), s')
               | Some account \<Rightarrow>
                   (Inr (make_response (Json (serialize account)) HTTP_200_OK []), s'))))))"

text \<open>\<^verbatim>\<open>PATCH /accounts\<close>\<close>

definition update_account :: "date \<Rightarrow> db \<Rightarrow> request \<Rightarrow> outcome \<times> db" where
  "update_account today s req =
     (case check_content_type ''application/json'' req of
        Inl e \<Rightarrow> (Inl e, s)
      | Inr u \<Rightarrow>
     (case get_json req of
        Inl e \<Rightarrow> (Inl e, s)
      | Inr data \<Rightarrow>
     (case getitem data ''id'' of
        Inl e \<Rightarrow> (Inl e, s)
      | Inr accountId \<Rightarrow>
          (let (found, s') = find_account s accountId
           in (case found of
                 None \<Rightarrow>
                   (Inl (HTTPException HTTP_404_NOT_FOUND ''The account cannot be found''), s')
               | Some account \<Rightarrow>
                   (case deserialize today account data of
                      Inl e \<Rightarrow> (Inl e, s')
                    | Inr account' \<Rightarrow>
                        (case update s' account' of
                           (Inl e, s'') \<Rightarrow> (Inl e, s'')
                         | (Inr u', s'') \<Rightarrow>
                             (Inr (make_response (Json (serialize account')) HTTP_200_OK []),
                              s''))))))))"

text \<open>\<^verbatim>\<open>DELETE /accounts\<close>\<close>

definition delete_account :: "db \<Rightarrow> request \<Rightarrow> outcome \<times> db" where
  "delete_account s req =
     (case check_content_type ''application/json'' req of
        Inl e \<Rightarrow> (Inl e, s)
      | Inr u \<Rightarrow>
     (case get_json req of
        Inl e \<Rightarrow> (Inl e, s)
      | Inr data \<Rightarrow>
     (case getitem data ''id'' of
        Inl e \<Rightarrow> (Inl e, s)
      | Inr accountId \<Rightarrow>
          (let (found, s') = find_account s accountId;
               s'' = (case found of None \<Rightarrow> s' | Some account \<Rightarrow> delete s' account)
           in (Inr (make_response (Raw []) HTTP_204_NO_CONTENT []), s'')))))"

section \<open>Requests and payloads of the claims\<close>

text \<open>A request with the JSON content type and a parsed body.\<close>

definition json_request :: "json \<Rightarrow> request" where
  "json_request j = \<lparr>content_type = Some ''application/json'', json_body = Some j\<rparr>"

text \<open>
  A request names an Account by an identifier when it has the JSON content type and its
  body is a JSON object whose \<open>id\<close> is the identifier, whatever else it carries.
\<close>

definition carries_id :: "request \<Rightarrow> json \<Rightarrow> bool" where
  "carries_id req v =
     (content_type req = Some ''application/json'' \<and>
      (case json_body req of Some (JDict d) \<Rightarrow> map_of d ''id'' = Some v | _ \<Rightarrow> False))"

text \<open>The value a JSON object has under a key, \<open>None\<close> for anything else.\<close>

fun field :: "json \<Rightarrow> string \<Rightarrow> json option" where
  "field (JDict d) k = map_of d k"
| "field j k = None"

definition is_text :: "json option \<Rightarrow> bool" where
  "is_text v = (case v of Some (JText s) \<Rightarrow> True | _ \<Rightarrow> False)"

definition is_date_or_absent :: "json option \<Rightarrow> bool" where
  "is_date_or_absent v =
     (case v of None \<Rightarrow> True | Some (JDate x) \<Rightarrow> True | Some _ \<Rightarrow> False)"

text \<open>The text, or the date, that a payload gives a field.\<close>

definition text_of :: "json option \<Rightarrow> string" where
  "text_of v = (case v of Some (JText s) \<Rightarrow> s | _ \<Rightarrow> [])"

definition date_or :: "date \<Rightarrow> json option \<Rightarrow> date" where
  "date_or today v = (case v of Some (JDate x) \<Rightarrow> x | _ \<Rightarrow> today)"

text \<open>
  A valid Account payload, in the words of the spec's data model: a JSON object with a
  non-empty text \<open>name\<close>, text \<open>email\<close>, \<open>address\<close> and \<open>phone_number\<close>, and
  a \<open>date_joined\<close> that is a date when it is there.
\<close>

definition valid_payload :: "json \<Rightarrow> bool" where
  "valid_payload p =
     (case p of
        JDict d \<Rightarrow>
          is_text (map_of d ''name'') \<and> map_of d ''name'' \<noteq> Some (JText []) \<and>
          is_text (map_of d ''email'') \<and>
          is_text (map_of d ''address'') \<and>
          is_text (map_of d ''phone_number'') \<and>
          is_date_or_absent (map_of d ''date_joined'')
      | _ \<Rightarrow> False)"

text \<open>
  The storage is well formed when every row has an identifier, no two rows share one and
  every identifier in use is below the next one to be handed out. The empty database is,
  and every persistence operation keeps it so.
\<close>

definition wf_db :: "db \<Rightarrow> bool" where
  "wf_db s =
     (distinct (map id (rows s)) \<and>
      list_all (\<lambda>r. case id r of None \<Rightarrow> False | Some i \<Rightarrow> i < next_id s) (rows s))"

text \<open>
  The payload of the spec's scenario, and the request that names an Account by the number
  of its identifier as the tests do (\<^verbatim>\<open>json={"id": id}\<close>).
\<close>

definition alice :: json where
  "alice = JDict [(''name'', JText ''Alice''), (''email'', JText ''a@x.com''),
                  (''address'', JText ''1 Main St''), (''phone_number'', JText ''555-1111'')]"

definition id_request :: "json \<Rightarrow> request" where
  "id_request v = json_request (JDict [(''id'', v)])"

text \<open>
  The helper \<^verbatim>\<open>_create_accounts\<close> of the tests posts one payload after the other;
  here it returns every outcome and the database at the end. \<open>delete_accounts\<close>
  sends one delete request per identifier in the same way.
\<close>

fun create_accounts_bulk :: "date \<Rightarrow> db \<Rightarrow> json list \<Rightarrow> outcome list \<times> db" where
  "create_accounts_bulk today s [] = ([], s)"
| "create_accounts_bulk today s (p # ps) =
     (let (oc, s1) = create_accounts today s (json_request p);
          (ocs, s2) = create_accounts_bulk today s1 ps
      in (oc # ocs, s2))"

fun delete_accounts :: "db \<Rightarrow> json list \<Rightarrow> outcome list \<times> db" where
  "delete_accounts s [] = ([], s)"
| "delete_accounts s (v # vs) =
     (let (oc, s1) = delete_account s (id_request v);
          (ocs, s2) = delete_accounts s1 vs
      in (oc # ocs, s2))"

text \<open>
  An identifier of a request names a row when it is the number of the row's identifier.
\<close>

definition names :: "json \<Rightarrow> account \<Rightarrow> bool" where
  "names v = (\<lambda>r. case v of JNum i \<Rightarrow> id r = Some i | _ \<Rightarrow> False)"

text \<open>
  What the tests read from a response: \<^verbatim>\<open>response.get_json()\<close> and, of a created
  Account, \<^verbatim>\<open>new_account["id"]\<close>.
\<close>

definition response_json :: "outcome \<Rightarrow> json option" where
  "response_json oc =
     (case oc of Inr r \<Rightarrow> (case body r of Json j \<Rightarrow> Some j | Raw x \<Rightarrow> None) | Inl e \<Rightarrow> None)"

definition created_id :: "outcome \<Rightarrow> json option" where
  "created_id oc = (case response_json oc of Some j \<Rightarrow> field j ''id'' | None \<Rightarrow> None)"

text \<open>The response of create for the Account it has persisted.\<close>

definition created_response :: "account \<Rightarrow> outcome" where
  "created_response a =
     Inr (make_response (Json (serialize a)) HTTP_201_CREATED [(''Location'', ''/'')])"

text \<open>
  More payloads for the examples: a second Account with its own date, the update of the
  tests (Alice's record under a new name and phone number) and the incomplete payload of
  \<^verbatim>\<open>test_bad_request\<close>.
\<close>

definition bob :: json where
  "bob = JDict [(''name'', JText ''Bob''), (''email'', JText ''b@x.com''),
                (''address'', JText ''2 Main St''), (''phone_number'', JText ''555-2222''),
                (''date_joined'', JDate (Date 2020 2 3))]"


definition not_enough :: json where
  "not_enough = JDict [(''name'', JText ''not enough data'')]"

text \<open>The day and the database of the examples: Alice's account is the only row.\<close>

definition today0 :: date where
  "today0 = Date 2024 5 17"

definition db_alice :: db where
  "db_alice = snd (create_accounts today0 init_db (json_request alice))"

section \<open>Deserialization and lookup\<close>

lemma text_field_text:
  "is_text (map_of d k) \<Longrightarrow> text_field d k = Inr (text_of (map_of d k))"
  by (cases "map_of d k"; simp add: is_text_def text_field_def text_of_def split: json.splits)

lemma text_field_not_text:
  "\<not> is_text (map_of d k) \<Longrightarrow> \<exists>m. text_field d k = Inl (DataValidationError m)"
  by (cases "map_of d k"; simp add: is_text_def text_field_def split: json.splits)

lemma date_field_ok:
  "is_date_or_absent (map_of d ''date_joined'') \<Longrightarrow>
   date_field today d = Inr (date_or today (map_of d ''date_joined''))"
  by (cases "map_of d ''date_joined''";
      simp add: is_date_or_absent_def date_field_def date_or_def split: json.splits)

lemma date_field_bad:
  "\<not> is_date_or_absent (map_of d ''date_joined'') \<Longrightarrow>
   \<exists>m. date_field today d = Inl (DataValidationError m)"
  by (cases "map_of d ''date_joined''";
      simp add: is_date_or_absent_def date_field_def split: json.splits)

lemma text_of_nonempty:
  "is_text v \<Longrightarrow> v \<noteq> Some (JText []) \<Longrightarrow> text_of v \<noteq> []"
  by (cases v; simp add: is_text_def text_of_def split: json.splits)

lemma text_of_empty:
  "is_text v \<Longrightarrow> v = Some (JText []) \<Longrightarrow> text_of v = []"
  by (simp add: text_of_def)

lemma deserialize_valid:
  assumes "valid_payload p"
  shows "deserialize today a p =
     Inr (a\<lparr>name := text_of (field p ''name''), email := text_of (field p ''email''),
            address := text_of (field p ''address''),
            phone_number := text_of (field p ''phone_number''),
            date_joined := date_or today (field p ''date_joined'')\<rparr>)"
proof (cases p)
  case (JDict d)
  with assms have v: "is_text (map_of d ''name'')" "map_of d ''name'' \<noteq> Some (JText [])"
      "is_text (map_of d ''email'')" "is_text (map_of d ''address'')"
      "is_text (map_of d ''phone_number'')" "is_date_or_absent (map_of d ''date_joined'')"
    by (simp_all add: valid_payload_def)
  show ?thesis
    unfolding JDict deserialize_def
    by (simp add: text_field_text v date_field_ok text_of_nonempty)
qed (use assms in \<open>simp_all add: valid_payload_def\<close>)

lemma deserialize_invalid:
  assumes "\<not> valid_payload p"
  shows "\<exists>m. deserialize today a p = Inl (DataValidationError m)"
proof (cases p)
  case (JDict d)
  show ?thesis
  proof (cases "is_text (map_of d ''name'')")
    case False
    from text_field_not_text [OF this] show ?thesis
      unfolding JDict deserialize_def by auto
  next
    case n: True
    show ?thesis
    proof (cases "map_of d ''name'' = Some (JText [])")
      case True
      then show ?thesis unfolding JDict deserialize_def
        by (simp add: text_field_def)
    next
      case ne: False
      show ?thesis
      proof (cases "is_text (map_of d ''email'')")
        case False
        from text_field_not_text [OF this] show ?thesis
          unfolding JDict deserialize_def
          by (auto simp: text_field_text n text_of_nonempty ne)
      next
        case e: True
        show ?thesis
        proof (cases "is_text (map_of d ''address'')")
          case False
          from text_field_not_text [OF this] show ?thesis
            unfolding JDict deserialize_def
            by (auto simp: text_field_text n e text_of_nonempty ne)
        next
          case ad: True
          show ?thesis
          proof (cases "is_text (map_of d ''phone_number'')")
            case False
            from text_field_not_text [OF this] show ?thesis
              unfolding JDict deserialize_def
              by (auto simp: text_field_text n e ad text_of_nonempty ne)
          next
            case ph: True
            with assms n ne e ad JDict
            have "\<not> is_date_or_absent (map_of d ''date_joined'')"
              by (simp add: valid_payload_def)
            from date_field_bad [OF this, of today] show ?thesis
              unfolding JDict deserialize_def
              by (auto simp: text_field_text n e ad ph text_of_nonempty ne)
          qed
        qed
      qed
    qed
  qed
qed (simp_all add: deserialize_def)

lemma find_Some_holds: "List.find P xs = Some a \<Longrightarrow> P a \<and> a \<in> set xs"
  by (induction xs) (auto split: if_splits)

lemma find_filter_neg: "List.find P (filter (\<lambda>r. \<not> P r) xs) = None"
  by (induction xs) auto

lemma find_snoc_fresh:
  "\<forall>r\<in>set xs. \<not> P r \<Longrightarrow> P x \<Longrightarrow> List.find P (xs @ [x]) = Some x"
  by (induction xs) auto


section \<open>The handlers on well-formed requests\<close>

lemma check_content_type_accept:
  "content_type req = Some ''application/json'' \<Longrightarrow>
   check_content_type ''application/json'' req = Inr ()"
  by (simp add: check_content_type_def)

lemma wf_db_fresh:
  assumes "wf_db s"
  shows "\<forall>r\<in>set (rows s). id r \<noteq> Some (next_id s)"
  using assms by (auto simp: wf_db_def list_all_iff split: option.splits)

lemma find_account_created:
  assumes "wf_db s"
  shows "fst (find_account (snd (create s a)) (JNum (next_id s))) = Some (fst (create s a))"
  using wf_db_fresh [OF assms]
  by (simp add: find_account_def create_def Let_def find_snoc_fresh)

lemma create_accounts_valid:
  assumes "content_type req = Some ''application/json''" and "json_body req = Some p"
    and "valid_payload p"
  shows "create_accounts today s req =
     (Inr (make_response (Json (serialize (fst (create s
              (Account\<lparr>name := text_of (field p ''name''),
                 email := text_of (field p ''email''),
                 address := text_of (field p ''address''),
                 phone_number := text_of (field p ''phone_number''),
                 date_joined := date_or today (field p ''date_joined'')\<rparr>)))))
            HTTP_201_CREATED [(''Location'', ''/'')]),
      snd (create s
              (Account\<lparr>name := text_of (field p ''name''),
                 email := text_of (field p ''email''),
                 address := text_of (field p ''address''),
                 phone_number := text_of (field p ''phone_number''),
                 date_joined := date_or today (field p ''date_joined'')\<rparr>)))"
  by (simp add: create_accounts_def check_content_type_accept assms get_json_def
        deserialize_valid Let_def split: prod.splits)

lemma read_account_found:
  assumes "carries_id req v" and "fst (find_account s v) = Some a"
  shows "fst (read_account s req) = Inr (make_response (Json (serialize a)) HTTP_200_OK [])"
  using assms
  by (auto simp: carries_id_def read_account_def check_content_type_def get_json_def
        Let_def split: option.splits json.splits prod.splits)

lemma field_text_valid:
  "is_text (map_of d k) \<Longrightarrow> Some (JText (text_of (map_of d k))) = map_of d k"
  by (cases "map_of d k"; simp add: is_text_def text_of_def split: json.splits)

lemma field_date_valid:
  "is_date_or_absent v \<Longrightarrow>
   Some (JDate (date_or today v)) = (case v of None \<Rightarrow> Some (JDate today) | Some x \<Rightarrow> Some x)"
  by (cases v; simp add: is_date_or_absent_def date_or_def split: json.splits)

lemma make_response_sel [simp]:
  "status (make_response b s h) = s" "body (make_response b s h) = b"
  "headers (make_response b s h) = h"
  by (simp_all add: make_response_def)

lemma check_content_type_reject:
  "content_type req \<noteq> Some ''application/json'' \<Longrightarrow>
   check_content_type ''application/json'' req =
     Inl (HTTPException HTTP_415_UNSUPPORTED_MEDIA_TYPE ''Content-Type must be application/json'')"
  by (simp add: check_content_type_def split: option.splits)

lemma create_alice:
  "create_accounts today0 init_db (json_request alice) =
     (Inr \<lparr>status = 201,
           body = Json (JDict [(''id'', JNum 1), (''name'', JText ''Alice''),
             (''email'', JText ''a@x.com''), (''address'', JText ''1 Main St''),
             (''phone_number'', JText ''555-1111''), (''date_joined'', JDate (Date 2024 5 17))]),
           headers = [(''Location'', ''/'')]\<rparr>,
      \<lparr>rows = [\<lparr>id = Some 1, name = ''Alice'', email = ''a@x.com'', address = ''1 Main St'',
                 phone_number = ''555-1111'', date_joined = Date 2024 5 17\<rparr>],
       next_id = 2, calls = [Create]\<rparr>)"
  by (simp add: create_accounts_def json_request_def check_content_type_def get_json_def
      deserialize_def text_field_def date_field_def create_def init_db_def serialize_def
      make_response_def Account_def alice_def today0_def Let_def)

lemma db_alice_eq:
  "db_alice = \<lparr>rows = [\<lparr>id = Some 1, name = ''Alice'', email = ''a@x.com'',
                 address = ''1 Main St'', phone_number = ''555-1111'',
                 date_joined = Date 2024 5 17\<rparr>],
       next_id = 2, calls = [Create]\<rparr>"
  by (simp add: db_alice_def create_alice)

lemma names_JNum: "names (JNum i) = (\<lambda>r. id r = Some i)"
  by (simp add: names_def fun_eq_iff)

lemma find_never: "List.find (\<lambda>r. False) xs = None"
  by (induction xs) auto

lemma find_account_names:
  "fst (find_account s v) = List.find (names v) (rows s)"
  by (cases v) (simp_all add: find_account_def names_def find_never)

lemma find_account_db [simp]:
  "snd (find_account s v) = s\<lparr>calls := calls s @ [Find]\<rparr>"
  by (simp add: find_account_def)

lemma find_account_Some:
  assumes "fst (find_account s v) = Some a"
  shows "\<exists>i. v = JNum i \<and> id a = Some i \<and> a \<in> set (rows s)"
  using assms find_Some_holds [of "names v" "rows s" a]
  by (auto simp: find_account_names names_def split: json.splits)

lemma handler_prelude:
  assumes "carries_id req v"
  shows "check_content_type ''application/json'' req = Inr ()"
    and "\<exists>d. get_json req = Inr (JDict d) \<and> getitem (JDict d) ''id'' = Inr v"
  using assms
  by (auto simp: carries_id_def check_content_type_def get_json_def
      split: option.splits json.splits)

lemma delete_account_outcome:
  assumes "carries_id req v"
  shows "fst (delete_account s req) = Inr (make_response (Raw []) HTTP_204_NO_CONTENT [])"
  using handler_prelude [OF assms]
  by (auto simp: delete_account_def Let_def split: prod.splits)

lemma delete_account_rows:
  assumes "carries_id req v"
  shows "rows (snd (delete_account s req)) = filter (\<lambda>r. \<not> names v r) (rows s)"
proof -
  from handler_prelude [OF assms] obtain d where
    c: "check_content_type ''application/json'' req = Inr ()"
    and g: "get_json req = Inr (JDict d)" and i: "getitem (JDict d) ''id'' = Inr v"
    by blast
  show ?thesis
  proof (cases "fst (find_account s v)")
    case None
    then have "List.find (names v) (rows s) = None" by (simp add: find_account_names)
    then have "filter (\<lambda>r. \<not> names v r) (rows s) = rows s"
      by (simp add: find_None_iff)
    with None c g i show ?thesis
      by (simp add: delete_account_def Let_def split_beta del: getitem.simps)
  next
    case (Some a)
    from find_account_Some [OF this] obtain k where k: "v = JNum k" "id a = Some k" by blast
    with Some c g i show ?thesis
      by (simp add: delete_account_def Let_def split_beta delete_def names_def
            del: getitem.simps)
  qed
qed

lemma find_account_after_delete:
  assumes "carries_id req v"
  shows "fst (find_account (snd (delete_account s req)) v) = None"
  by (simp add: find_account_names delete_account_rows [OF assms] find_filter_neg)

lemma field_serialize [simp]:
  "field (serialize a) ''id'' = Some (case id a of None \<Rightarrow> JNull | Some i \<Rightarrow> JNum i)"
  "field (serialize a) ''name'' = Some (JText (name a))"
  "field (serialize a) ''email'' = Some (JText (email a))"
  "field (serialize a) ''address'' = Some (JText (address a))"
  "field (serialize a) ''phone_number'' = Some (JText (phone_number a))"
  "field (serialize a) ''date_joined'' = Some (JDate (date_joined a))"
  by (simp_all add: serialize_def)

lemma field_text_of:
  "valid_payload p \<Longrightarrow> k \<in> {''name'', ''email'', ''address'', ''phone_number''} \<Longrightarrow>
   Some (JText (text_of (field p k))) = field p k"
  by (cases p) (auto simp: valid_payload_def field_text_valid)

lemma field_date_or:
  "valid_payload p \<Longrightarrow>
   Some (JDate (date_or today (field p ''date_joined''))) =
     (case field p ''date_joined'' of None \<Rightarrow> Some (JDate today) | Some x \<Rightarrow> Some x)"
  by (cases p) (auto simp: valid_payload_def field_date_valid)


lemma wf_db_create:
  assumes "wf_db s"
  shows "wf_db (snd (create s a))"
  using assms wf_db_fresh [OF assms]
  by (auto simp: wf_db_def create_def Let_def list_all_iff split: option.splits)

lemma wf_db_empty: "rows s = [] \<Longrightarrow> wf_db s"
  by (simp add: wf_db_def)

lemma create_accounts_bulk_valid:
  "list_all valid_payload ps \<Longrightarrow> wf_db s \<Longrightarrow>
   \<exists>as s'. create_accounts_bulk today s ps = (map created_response as, s')
      \<and> rows s' = rows s @ as \<and> length as = length ps \<and> wf_db s'"
proof (induction ps arbitrary: s)
  case Nil
  then show ?case by simp
next
  case (Cons p ps)
  let ?b = "Account\<lparr>name := text_of (field p ''name''),
                 email := text_of (field p ''email''),
                 address := text_of (field p ''address''),
                 phone_number := text_of (field p ''phone_number''),
                 date_joined := date_or today (field p ''date_joined'')\<rparr>"
  let ?a = "fst (create s ?b)"
  let ?s1 = "snd (create s ?b)"
  from Cons.prems have vp: "valid_payload p" and vps: "list_all valid_payload ps" by simp_all
  have c: "create_accounts today s (json_request p) = (created_response ?a, ?s1)"
    using create_accounts_valid [of "json_request p" p, OF _ _ vp]
    by (simp add: json_request_def created_response_def)
  have w1: "wf_db ?s1" by (rule wf_db_create [OF Cons.prems(2)])
  have r1: "rows ?s1 = rows s @ [?a]" by (simp add: create_def Let_def)
  from Cons.IH [OF vps w1] obtain as s' where
    ih: "create_accounts_bulk today ?s1 ps = (map created_response as, s')"
      "rows s' = rows ?s1 @ as" "length as = length ps" "wf_db s'"
    by blast
  have "create_accounts_bulk today s (p # ps) = (map created_response (?a # as), s')"
    by (simp add: c ih(1))
  moreover have "rows s' = rows s @ (?a # as)" by (simp add: ih(2) r1)
  moreover have "length (?a # as) = length (p # ps)" by (simp add: ih(3))
  ultimately show ?case using ih(4) by blast
qed

lemma carries_id_request: "carries_id (id_request v) v"
  by (simp add: carries_id_def id_request_def json_request_def)

lemma delete_accounts_rows:
  "rows (snd (delete_accounts s vs)) = filter (\<lambda>r. \<forall>v\<in>set vs. \<not> names v r) (rows s)"
proof (induction vs arbitrary: s)
  case Nil
  then show ?case by simp
next
  case (Cons v vs)
  have "rows (snd (delete_accounts s (v # vs))) =
        rows (snd (delete_accounts (snd (delete_account s (id_request v))) vs))"
    by (simp add: split_beta Let_def)
  also have "\<dots> = filter (\<lambda>r. \<forall>u\<in>set vs. \<not> names u r)
                     (filter (\<lambda>r. \<not> names v r) (rows s))"
    by (simp add: Cons.IH delete_account_rows [OF carries_id_request])
  also have "\<dots> = filter (\<lambda>r. \<forall>u\<in>set (v # vs). \<not> names u r) (rows s)"
    by (simp add: conj_commute)
  finally show ?case .
qed

lemma delete_accounts_outcomes:
  "list_all (\<lambda>oc. oc = Inr (make_response (Raw []) HTTP_204_NO_CONTENT []))
     (fst (delete_accounts s vs))"
  by (induction vs arbitrary: s)
     (simp_all add: split_beta Let_def delete_account_outcome [OF carries_id_request])

lemma filter_key_count:
  "distinct (map f xs) \<Longrightarrow> k \<in> f ` set xs \<Longrightarrow>
   length (filter (\<lambda>r. f r \<noteq> k) xs) = length xs - 1"
proof (induction xs)
  case Nil
  then show ?case by simp
next
  case (Cons x xs)
  show ?case
  proof (cases "f x = k")
    case True
    with Cons.prems have "k \<notin> f ` set xs" by simp
    then have "\<forall>r\<in>set xs. f r \<noteq> k" by (metis imageI)
    then have "filter (\<lambda>r. f r \<noteq> k) xs = xs" by (simp add: filter_id_conv)
    with True show ?thesis by simp
  next
    case False
    with Cons.prems have k: "k \<in> f ` set xs" and d: "distinct (map f xs)" by auto
    from k have "xs \<noteq> []" by auto
    then have "0 < length xs" by simp
    with Cons.IH [OF d k] False show ?thesis by simp
  qed
qed

lemma names_count:
  assumes "distinct (map id xs)" and "r \<in> set xs" and "names v r"
  shows "length (filter (\<lambda>r. \<not> names v r) xs) = length xs - 1"
proof -
  from assms(3) obtain i where i: "v = JNum i" "id r = Some i"
    by (auto simp: names_def split: json.splits)
  have "Some i \<in> id ` set xs" using i(2) assms(2) by (metis imageI)
  from filter_key_count [OF assms(1) this] show ?thesis
    by (simp add: i(1) names_def)
qed

lemma names_same: "names u r \<Longrightarrow> names v r \<Longrightarrow> u = v"
  by (auto simp: names_def split: json.splits)

lemma filter_names_count:
  "distinct (map id xs) \<Longrightarrow> distinct vs \<Longrightarrow> \<forall>v\<in>set vs. \<exists>r\<in>set xs. names v r \<Longrightarrow>
   length (filter (\<lambda>r. \<forall>v\<in>set vs. \<not> names v r) xs) = length xs - length vs"
proof (induction vs arbitrary: xs)
  case Nil
  then show ?case by simp
next
  case (Cons v vs)
  let ?xs' = "filter (\<lambda>r. \<not> names v r) xs"
  from Cons.prems(3) obtain r where r: "r \<in> set xs" "names v r" by auto
  have l: "length ?xs' = length xs - 1" by (rule names_count [OF Cons.prems(1) r])
  have d: "distinct (map id ?xs')" by (rule distinct_map_filter [OF Cons.prems(1)])
  have dv: "distinct vs" and nv: "v \<notin> set vs" using Cons.prems(2) by simp_all
  have m: "\<forall>u\<in>set vs. \<exists>r\<in>set ?xs'. names u r"
  proof
    fix u assume u: "u \<in> set vs"
    with Cons.prems(3) obtain q where q: "q \<in> set xs" "names u q" by auto
    have "\<not> names v q" using names_same [OF q(2)] u nv by blast
    with q show "\<exists>r\<in>set ?xs'. names u r" by auto
  qed
  have "filter (\<lambda>r. \<forall>u\<in>set (v # vs). \<not> names u r) xs =
        filter (\<lambda>r. \<forall>u\<in>set vs. \<not> names u r) ?xs'"
    by (simp add: conj_commute)
  then have "length (filter (\<lambda>r. \<forall>u\<in>set (v # vs). \<not> names u r) xs) =
        length ?xs' - length vs"
    using Cons.IH [OF d dv m] by simp
  with l show ?case by simp
qed

lemma read_all_accounts_outcome:
  "fst (read_all_accounts s req) =
     Inr (make_response (Json (JList (map serialize (rows s)))) HTTP_200_OK [])"
  by (simp add: read_all_accounts_def all_accounts_def)

lemma created_id_response:
  "created_id (created_response a) = Some (case id a of None \<Rightarrow> JNull | Some i \<Rightarrow> JNum i)"
  by (simp add: created_id_def response_json_def created_response_def)

lemma response_json_created: "response_json (created_response a) = Some (serialize a)"
  by (simp add: response_json_def created_response_def)

lemma wf_db_rows:
  "wf_db s \<Longrightarrow> distinct (map id (rows s)) \<and> (\<forall>r\<in>set (rows s). \<exists>i. id r = Some i)"
  by (auto simp: wf_db_def list_all_iff split: option.splits)

lemma valid_alice: "valid_payload alice"
  by (simp add: valid_payload_def alice_def is_text_def is_date_or_absent_def)

lemma valid_bob: "valid_payload bob"
  by (simp add: valid_payload_def bob_def is_text_def is_date_or_absent_def)


lemma wf_init_db: "wf_db init_db"
  by (simp add: wf_db_def init_db_def)

lemma json_request_sel [simp]:
  "content_type (json_request j) = Some ''application/json''"
  "json_body (json_request j) = Some j"
  by (simp_all add: json_request_def)

lemma create_two:
  "create_accounts_bulk today0 init_db [alice, bob] =
     ([created_response \<lparr>id = Some 1, name = ''Alice'', email = ''a@x.com'',
          address = ''1 Main St'', phone_number = ''555-1111'', date_joined = Date 2024 5 17\<rparr>,
       created_response \<lparr>id = Some 2, name = ''Bob'', email = ''b@x.com'',
          address = ''2 Main St'', phone_number = ''555-2222'', date_joined = Date 2020 2 3\<rparr>],
      \<lparr>rows = [\<lparr>id = Some 1, name = ''Alice'', email = ''a@x.com'',
          address = ''1 Main St'', phone_number = ''555-1111'', date_joined = Date 2024 5 17\<rparr>,
               \<lparr>id = Some 2, name = ''Bob'', email = ''b@x.com'',
          address = ''2 Main St'', phone_number = ''555-2222'', date_joined = Date 2020 2 3\<rparr>],
       next_id = 3, calls = [Create, Create]\<rparr>)"
  by (simp add: create_accounts_valid [OF _ _ valid_alice] create_accounts_valid [OF _ _ valid_bob]
        create_def Let_def init_db_def created_response_def Account_def today0_def
        alice_def bob_def text_of_def date_or_def)

section \<open>The storage invariant\<close>

text \<open>
  Every handler keeps the storage well formed, so the well-formed storages are those the
  service can be in, starting from the empty database.
\<close>

lemma wf_db_ids:
  assumes "map id (rows s') = map id (rows s)" and "next_id s' = next_id s" and "wf_db s"
  shows "wf_db s'"
proof -
  have l: "list_all (\<lambda>r. case id r of None \<Rightarrow> False | Some i \<Rightarrow> i < n) xs =
        list_all (\<lambda>k. case k of None \<Rightarrow> False | Some i \<Rightarrow> i < n) (map id xs)" for xs n
    by (induction xs) simp_all
  from assms(3) have "distinct (map id (rows s))"
    and "list_all (\<lambda>k. case k of None \<Rightarrow> False | Some i \<Rightarrow> i < next_id s) (map id (rows s))"
    by (simp_all add: wf_db_def l)
  then have "distinct (map id (rows s'))"
    and "list_all (\<lambda>k. case k of None \<Rightarrow> False | Some i \<Rightarrow> i < next_id s') (map id (rows s'))"
    by (simp_all only: assms(1,2))
  then show ?thesis by (simp add: wf_db_def l)
qed

lemma wf_db_filter:
  assumes "wf_db s" and "rows s' = filter P (rows s)" and "next_id s' = next_id s"
  shows "wf_db s'"
proof -
  from assms(1) have d: "distinct (map id (rows s))"
    and a: "\<forall>r\<in>set (rows s). case id r of None \<Rightarrow> False | Some i \<Rightarrow> i < next_id s"
    by (simp_all add: wf_db_def list_all_iff)
  have "distinct (map id (rows s'))" by (simp add: assms(2) distinct_map_filter [OF d])
  moreover have "\<forall>r\<in>set (rows s'). case id r of None \<Rightarrow> False | Some i \<Rightarrow> i < next_id s"
    using a by (simp add: assms(2))
  then have "\<forall>r\<in>set (rows s'). case id r of None \<Rightarrow> False | Some i \<Rightarrow> i < next_id s'"
    by (simp only: assms(3))
  ultimately show ?thesis by (simp add: wf_db_def list_all_iff)
qed

lemma deserialize_id:
  assumes "deserialize today a p = Inr a'"
  shows "id a' = id a"
proof (cases "valid_payload p")
  case True
  from deserialize_valid [OF True, of today a] assms show ?thesis by auto
next
  case False
  from deserialize_invalid [OF False, of today a] assms show ?thesis by auto
qed

lemma wf_db_create_accounts:
  assumes "wf_db s"
  shows "wf_db (snd (create_accounts today s req))"
  using assms wf_db_create [OF assms]
  by (simp add: create_accounts_def Let_def split_beta split: sum.splits)

lemma wf_db_read:
  assumes "wf_db s"
  shows "wf_db (snd (read_account s req)) \<and> wf_db (snd (read_all_accounts s req))
       \<and> wf_db (snd (health s req))"
proof -
  have "rows (snd (read_account s req)) = rows s \<and> next_id (snd (read_account s req)) = next_id s
   \<and> rows (snd (read_all_accounts s req)) = rows s
   \<and> next_id (snd (read_all_accounts s req)) = next_id s
   \<and> snd (health s req) = s"
    by (simp add: read_account_def read_all_accounts_def health_def find_account_def
        all_accounts_def Let_def split: sum.splits option.splits prod.splits)
  with assms show ?thesis using wf_db_ids by metis
qed

lemma update_ids:
  "id a' = id a \<Longrightarrow> map id (map (\<lambda>r. if id r = id a then a' else r) xs) = map id xs"
  by (induction xs) simp_all

lemma wf_db_delete:
  assumes "wf_db s"
  shows "wf_db (delete (snd (find_account s v)) a)"
  by (rule wf_db_filter [OF assms, of _ "\<lambda>r. id r \<noteq> id a"]) (simp_all add: delete_def)

lemma wf_db_find:
  assumes "wf_db s"
  shows "wf_db (snd (find_account s v))"
  by (rule wf_db_ids [OF _ _ assms]) simp_all

lemma wf_db_update:
  assumes "wf_db s"
  shows "wf_db (snd (update s a))"
proof (rule wf_db_ids [OF _ _ assms])
  show "map id (rows (snd (update s a))) = map id (rows s)"
    using update_ids [of a a "rows s"] by (simp add: update_def)
  show "next_id (snd (update s a)) = next_id s" by (simp add: update_def)
qed

lemma wf_db_delete_account:
  assumes "wf_db s"
  shows "wf_db (snd (delete_account s req))"
proof (cases "check_content_type ''application/json'' req")
  case (Inl e)
  then show ?thesis using assms by (simp add: delete_account_def)
next
  case c: (Inr u)
  show ?thesis
  proof (cases "get_json req")
    case (Inl e)
    then show ?thesis using assms c by (simp add: delete_account_def)
  next
    case g: (Inr data)
    show ?thesis
    proof (cases "getitem data ''id''")
      case (Inl e)
      then show ?thesis using assms c g by (simp add: delete_account_def)
    next
      case i: (Inr v)
      show ?thesis
      proof (cases "fst (find_account s v)")
        case None
        then show ?thesis using wf_db_find [OF assms, of v] c g i
          by (simp add: delete_account_def Let_def split_beta)
      next
        case (Some a)
        then show ?thesis using wf_db_delete [OF assms, of v a] c g i
          by (simp add: delete_account_def Let_def split_beta)
      qed
    qed
  qed
qed

lemma wf_db_update_account:
  assumes "wf_db s"
  shows "wf_db (snd (update_account today s req))"
proof (cases "check_content_type ''application/json'' req")
  case (Inl e)
  then show ?thesis using assms by (simp add: update_account_def)
next
  case c: (Inr u)
  show ?thesis
  proof (cases "get_json req")
    case (Inl e)
    then show ?thesis using assms c by (simp add: update_account_def)
  next
    case g: (Inr data)
    show ?thesis
    proof (cases "getitem data ''id''")
      case (Inl e)
      then show ?thesis using assms c g by (simp add: update_account_def)
    next
      case i: (Inr v)
      note w = wf_db_find [OF assms, of v]
      show ?thesis
      proof (cases "fst (find_account s v)")
        case None
        then show ?thesis using w c g i
          by (simp add: update_account_def Let_def split_beta)
      next
        case f: (Some a)
        show ?thesis
        proof (cases "deserialize today a data")
          case (Inl e)
          then show ?thesis using w c g i f
            by (simp add: update_account_def Let_def split_beta)
        next
          case d: (Inr a')
          have "snd (update_account today s req) = snd (update (snd (find_account s v)) a')"
            using c g i f d
            by (simp add: update_account_def Let_def split_beta split: sum.splits)
          then show ?thesis using wf_db_update [OF w, of a'] by simp
        qed
      qed
    qed
  qed
qed

section \<open>The claims\<close>

subsection \<open>C1\<close>

text \<open>
  Claim C1. In a well-formed storage, creating an Account from a valid payload and then
  reading the identifier that create assigned returns the record that create returned:
  name, email, address and phone number are those of the payload, and the date joined is
  the payload's, or the current day when the payload omits it.
\<close>

theorem create_read_round_trip:
  assumes "wf_db s" and "content_type req = Some ''application/json''"
    and "json_body req = Some p" and "valid_payload p"
  shows "\<exists>i j s1. create_accounts today s req =
           (Inr (make_response (Json j) HTTP_201_CREATED [(''Location'', ''/'')]), s1)
         \<and> field j ''id'' = Some (JNum i)
         \<and> fst (read_account s1 (id_request (JNum i))) =
             Inr (make_response (Json j) HTTP_200_OK [])
         \<and> (\<forall>rq. carries_id rq (JNum i) \<longrightarrow>
               fst (read_account s1 rq) = Inr (make_response (Json j) HTTP_200_OK []))
         \<and> field j ''name'' = field p ''name''
         \<and> field j ''email'' = field p ''email''
         \<and> field j ''address'' = field p ''address''
         \<and> field j ''phone_number'' = field p ''phone_number''
         \<and> field j ''date_joined'' =
             (case field p ''date_joined'' of None \<Rightarrow> Some (JDate today) | Some x \<Rightarrow> Some x)"
proof -
  let ?b = "Account\<lparr>name := text_of (field p ''name''),
                 email := text_of (field p ''email''),
                 address := text_of (field p ''address''),
                 phone_number := text_of (field p ''phone_number''),
                 date_joined := date_or today (field p ''date_joined'')\<rparr>"
  let ?a = "fst (create s ?b)"
  let ?s1 = "snd (create s ?b)"
  have c: "create_accounts today s req =
     (Inr (make_response (Json (serialize ?a)) HTTP_201_CREATED [(''Location'', ''/'')]), ?s1)"
    by (rule create_accounts_valid [OF assms(2-4)])
  have a: "?a = ?b\<lparr>id := Some (next_id s)\<rparr>" by (simp add: create_def Let_def)
  have f: "fst (find_account ?s1 (JNum (next_id s))) = Some ?a"
    by (rule find_account_created [OF assms(1)])
  have r: "\<forall>rq. carries_id rq (JNum (next_id s)) \<longrightarrow>
      fst (read_account ?s1 rq) = Inr (make_response (Json (serialize ?a)) HTTP_200_OK [])"
    using read_account_found [OF _ f] by blast
  have cid: "carries_id (id_request (JNum (next_id s))) (JNum (next_id s))"
    by (simp add: carries_id_def id_request_def json_request_def)
  have flds: "field (serialize ?a) ''id'' = Some (JNum (next_id s))"
    "field (serialize ?a) ''name'' = field p ''name''"
    "field (serialize ?a) ''email'' = field p ''email''"
    "field (serialize ?a) ''address'' = field p ''address''"
    "field (serialize ?a) ''phone_number'' = field p ''phone_number''"
    "field (serialize ?a) ''date_joined'' =
       (case field p ''date_joined'' of None \<Rightarrow> Some (JDate today) | Some x \<Rightarrow> Some x)"
    using field_text_of [OF assms(4)] field_date_or [OF assms(4), of today]
    by (simp_all add: a)
  show ?thesis
    apply (rule exI [of _ "next_id s"])
    apply (rule exI [of _ "serialize ?a"])
    apply (rule exI [of _ ?s1])
    using c r cid flds by blast
qed

text \<open>
  C1 at Alice's payload, which has no date, in the empty database.
\<close>

theorem create_read_round_trip_witness:
  "wf_db init_db \<and> valid_payload alice
   \<and> (\<exists>i j s1. create_accounts today0 init_db (json_request alice) =
           (Inr (make_response (Json j) HTTP_201_CREATED [(''Location'', ''/'')]), s1)
         \<and> field j ''id'' = Some (JNum i)
         \<and> fst (read_account s1 (id_request (JNum i))) =
             Inr (make_response (Json j) HTTP_200_OK [])
         \<and> field j ''name'' = Some (JText ''Alice'')
         \<and> field j ''email'' = Some (JText ''a@x.com'')
         \<and> field j ''address'' = Some (JText ''1 Main St'')
         \<and> field j ''phone_number'' = Some (JText ''555-1111'')
         \<and> field j ''date_joined'' = Some (JDate today0))"
proof -
  have f: "field alice ''name'' = Some (JText ''Alice'')"
    "field alice ''email'' = Some (JText ''a@x.com'')"
    "field alice ''address'' = Some (JText ''1 Main St'')"
    "field alice ''phone_number'' = Some (JText ''555-1111'')"
    "field alice ''date_joined'' = None"
    by (simp_all add: alice_def)
  from create_read_round_trip [OF wf_init_db _ _ valid_alice,
      of "json_request alice" today0]
  obtain i j s1 where
    "create_accounts today0 init_db (json_request alice) =
           (Inr (make_response (Json j) HTTP_201_CREATED [(''Location'', ''/'')]), s1)"
    "field j ''id'' = Some (JNum i)"
    "fst (read_account s1 (id_request (JNum i))) = Inr (make_response (Json j) HTTP_200_OK [])"
    "field j ''name'' = Some (JText ''Alice'')"
    "field j ''email'' = Some (JText ''a@x.com'')"
    "field j ''address'' = Some (JText ''1 Main St'')"
    "field j ''phone_number'' = Some (JText ''555-1111'')"
    "field j ''date_joined'' = Some (JDate today0)"
    by (auto simp: f)
  then show ?thesis using wf_init_db valid_alice by blast
qed

subsection \<open>C2\<close>

text \<open>
  Claim C2. When the request names an identifier that matches no stored Account, read-one
  and update answer 404 and delete answers 204.
\<close>

theorem not_found_consistency:
  assumes "carries_id req v" and "fst (find_account s v) = None"
  shows "fst (read_account s req) =
           Inl (HTTPException HTTP_404_NOT_FOUND ''The account cannot be found'')
       \<and> fst (update_account today s req) =
           Inl (HTTPException HTTP_404_NOT_FOUND ''The account cannot be found'')
       \<and> fst (delete_account s req) = Inr (make_response (Raw []) HTTP_204_NO_CONTENT [])
       \<and> http_status (fst (read_account s req)) = HTTP_404_NOT_FOUND
       \<and> http_status (fst (update_account today s req)) = HTTP_404_NOT_FOUND
       \<and> http_status (fst (delete_account s req)) = HTTP_204_NO_CONTENT"
  using assms
  by (auto simp: carries_id_def read_account_def update_account_def delete_account_def
        check_content_type_def get_json_def make_response_def Let_def
        split: option.splits json.splits prod.splits)

text \<open>
  C2 at identifier 2 in the database that holds Alice's account under identifier 1.
\<close>

theorem not_found_consistency_witness:
  "carries_id (id_request (JNum 2)) (JNum 2) \<and> fst (find_account db_alice (JNum 2)) = None
   \<and> http_status (fst (read_account db_alice (id_request (JNum 2)))) = 404
   \<and> http_status (fst (update_account today0 db_alice (id_request (JNum 2)))) = 404
   \<and> http_status (fst (delete_account db_alice (id_request (JNum 2)))) = 204"
proof -
  have h1: "carries_id (id_request (JNum 2)) (JNum 2)"
    by (simp add: carries_id_def id_request_def json_request_def)
  have h2: "fst (find_account db_alice (JNum 2)) = None"
    by (simp add: db_alice_eq find_account_def)
  show ?thesis
    using not_found_consistency [OF h1 h2, of today0] h1 h2 by simp
qed

subsection \<open>C3\<close>

text \<open>
  Claim C3 fails as it is stated. A read or a delete request whose body is the empty JSON
  object, and an update request whose body has no \<open>id\<close>, raise
  \<^verbatim>\<open>KeyError\<close> at the subscript \<^verbatim>\<open>request.get_json()["id"]\<close>, which no route
  catches: the answer is 500, not 400. And an update whose body names a stored Account
  but is not a valid payload is rejected by deserialization only after the persistence
  call \<^verbatim>\<open>Account.find\<close> has been made.
\<close>

theorem validation_counterexample:
  "read_account db_alice (json_request (JDict [])) = (Inl (KeyError ''id''), db_alice)
   \<and> http_status (fst (read_account db_alice (json_request (JDict [])))) = 500
   \<and> delete_account db_alice (json_request (JDict [])) = (Inl (KeyError ''id''), db_alice)
   \<and> http_status (fst (delete_account db_alice (json_request (JDict [])))) = 500
   \<and> http_status (fst (update_account today0 db_alice (json_request not_enough))) = 500
   \<and> update_account today0 db_alice (json_request (JDict [(''id'', JNum 1)])) =
        (Inl (DataValidationError ''Invalid Account: missing name''),
         db_alice\<lparr>calls := calls db_alice @ [Find]\<rparr>)"
  by (simp add: read_account_def delete_account_def update_account_def check_content_type_def
        get_json_def json_request_def not_enough_def db_alice_eq find_account_def
        deserialize_def text_field_def)

text \<open>
  Claim C3, amended. With the JSON content type, a body that is not parseable JSON is
  answered with 400 and a message by create, read-one, update and delete, before any
  persistence call. A create request whose body parses but is not a valid Account
  payload is answered with 400 and a message by deserialization, before any persistence
  call: the database is as it was. An update request with such a body that names a
  stored Account is answered with 400 by deserialization too, after the lookup of the
  identifier and with the rows untouched.
\<close>

theorem validation_rejects:
  assumes "content_type req = Some ''application/json''"
  shows "(json_body req = None \<longrightarrow>
            create_accounts today s req =
              (Inl (HTTPException HTTP_400_BAD_REQUEST ''Failed to decode JSON object''), s)
          \<and> read_account s req =
              (Inl (HTTPException HTTP_400_BAD_REQUEST ''Failed to decode JSON object''), s)
          \<and> update_account today s req =
              (Inl (HTTPException HTTP_400_BAD_REQUEST ''Failed to decode JSON object''), s)
          \<and> delete_account s req =
              (Inl (HTTPException HTTP_400_BAD_REQUEST ''Failed to decode JSON object''), s))
       \<and> (json_body req = Some p \<and> \<not> valid_payload p \<longrightarrow>
            (\<exists>m. create_accounts today s req = (Inl (DataValidationError m), s))
          \<and> http_status (fst (create_accounts today s req)) = HTTP_400_BAD_REQUEST)
       \<and> (json_body req = Some p \<and> \<not> valid_payload p \<and> getitem p ''id'' = Inr v
            \<and> fst (find_account s v) = Some a \<longrightarrow>
            (\<exists>m. update_account today s req =
                   (Inl (DataValidationError m), s\<lparr>calls := calls s @ [Find]\<rparr>))
          \<and> http_status (fst (update_account today s req)) = HTTP_400_BAD_REQUEST)"
proof -
  have c: "check_content_type ''application/json'' req = Inr ()"
    by (rule check_content_type_accept [OF assms])
  have A: "json_body req = None \<longrightarrow>
            create_accounts today s req =
              (Inl (HTTPException HTTP_400_BAD_REQUEST ''Failed to decode JSON object''), s)
          \<and> read_account s req =
              (Inl (HTTPException HTTP_400_BAD_REQUEST ''Failed to decode JSON object''), s)
          \<and> update_account today s req =
              (Inl (HTTPException HTTP_400_BAD_REQUEST ''Failed to decode JSON object''), s)
          \<and> delete_account s req =
              (Inl (HTTPException HTTP_400_BAD_REQUEST ''Failed to decode JSON object''), s)"
    by (simp add: create_accounts_def read_account_def update_account_def delete_account_def
          c get_json_def)
  have B: "json_body req = Some p \<and> \<not> valid_payload p \<longrightarrow>
            (\<exists>m. create_accounts today s req = (Inl (DataValidationError m), s))
          \<and> http_status (fst (create_accounts today s req)) = HTTP_400_BAD_REQUEST"
  proof
    assume h: "json_body req = Some p \<and> \<not> valid_payload p"
    from deserialize_invalid [of p today Account] h obtain m where
      m: "deserialize today Account p = Inl (DataValidationError m)" by blast
    have "create_accounts today s req = (Inl (DataValidationError m), s)"
      using h by (simp add: create_accounts_def c get_json_def m)
    then show "(\<exists>m. create_accounts today s req = (Inl (DataValidationError m), s))
          \<and> http_status (fst (create_accounts today s req)) = HTTP_400_BAD_REQUEST"
      by simp
  qed
  have C: "json_body req = Some p \<and> \<not> valid_payload p \<and> getitem p ''id'' = Inr v
            \<and> fst (find_account s v) = Some a \<longrightarrow>
            (\<exists>m. update_account today s req =
                   (Inl (DataValidationError m), s\<lparr>calls := calls s @ [Find]\<rparr>))
          \<and> http_status (fst (update_account today s req)) = HTTP_400_BAD_REQUEST"
  proof
    assume h: "json_body req = Some p \<and> \<not> valid_payload p \<and> getitem p ''id'' = Inr v
            \<and> fst (find_account s v) = Some a"
    from deserialize_invalid [of p today a] h obtain m where
      m: "deserialize today a p = Inl (DataValidationError m)" by blast
    have fa: "find_account s v = (Some a, s\<lparr>calls := calls s @ [Find]\<rparr>)"
      using h find_account_db [of s v] by (metis prod.collapse)
    have "update_account today s req =
        (Inl (DataValidationError m), s\<lparr>calls := calls s @ [Find]\<rparr>)"
      using h by (simp add: update_account_def c get_json_def fa m)
    then show "(\<exists>m. update_account today s req =
                   (Inl (DataValidationError m), s\<lparr>calls := calls s @ [Find]\<rparr>))
          \<and> http_status (fst (update_account today s req)) = HTTP_400_BAD_REQUEST"
      by simp
  qed
  from A B C show ?thesis by blast
qed

text \<open>
  The amended C3 at the incomplete payload of the tests, posted to the database that
  holds Alice's account.
\<close>

theorem validation_rejects_witness:
  "content_type (json_request not_enough) = Some ''application/json''
   \<and> json_body (json_request not_enough) = Some not_enough \<and> \<not> valid_payload not_enough
   \<and> (\<exists>m. create_accounts today0 db_alice (json_request not_enough) =
           (Inl (DataValidationError m), db_alice))
   \<and> http_status (fst (create_accounts today0 db_alice (json_request not_enough))) = 400"
proof -
  have c: "content_type (json_request not_enough) = Some ''application/json''" by simp
  have b: "json_body (json_request not_enough) = Some not_enough" by simp
  have n: "\<not> valid_payload not_enough"
    by (simp add: valid_payload_def not_enough_def is_text_def)
  from validation_rejects [OF c, of today0 db_alice not_enough] b n
  have "(\<exists>m. create_accounts today0 db_alice (json_request not_enough) =
           (Inl (DataValidationError m), db_alice))
   \<and> http_status (fst (create_accounts today0 db_alice (json_request not_enough))) = 400"
    by blast
  with c b n show ?thesis by blast
qed

subsection \<open>C4\<close>

text \<open>
  Claim C4. A create, read-one, update or delete request whose Content-Type header is
  absent or is anything but \<open>application/json\<close> is answered with 415, whatever
  the body and the database are; the database is left as it was.
\<close>

theorem content_type_gate:
  assumes "content_type req \<noteq> Some ''application/json''"
  shows "create_accounts today s req =
           (Inl (HTTPException HTTP_415_UNSUPPORTED_MEDIA_TYPE
                   ''Content-Type must be application/json''), s)
       \<and> read_account s req =
           (Inl (HTTPException HTTP_415_UNSUPPORTED_MEDIA_TYPE
                   ''Content-Type must be application/json''), s)
       \<and> update_account today s req =
           (Inl (HTTPException HTTP_415_UNSUPPORTED_MEDIA_TYPE
                   ''Content-Type must be application/json''), s)
       \<and> delete_account s req =
           (Inl (HTTPException HTTP_415_UNSUPPORTED_MEDIA_TYPE
                   ''Content-Type must be application/json''), s)
       \<and> http_status (fst (create_accounts today s req)) = HTTP_415_UNSUPPORTED_MEDIA_TYPE
       \<and> http_status (fst (read_account s req)) = HTTP_415_UNSUPPORTED_MEDIA_TYPE
       \<and> http_status (fst (update_account today s req)) = HTTP_415_UNSUPPORTED_MEDIA_TYPE
       \<and> http_status (fst (delete_account s req)) = HTTP_415_UNSUPPORTED_MEDIA_TYPE"
  using check_content_type_reject [OF assms]
  by (simp add: create_accounts_def read_account_def update_account_def delete_account_def)

text \<open>
  C4 at a request with the content type \<open>text/html\<close> and at one with no
  Content-Type header.
\<close>

theorem content_type_gate_witness:
  "content_type \<lparr>content_type = Some ''text/html'', json_body = Some alice\<rparr>
     \<noteq> Some ''application/json''
   \<and> http_status (fst (create_accounts today0 db_alice
         \<lparr>content_type = Some ''text/html'', json_body = Some alice\<rparr>)) = 415
   \<and> content_type \<lparr>content_type = None, json_body = Some (JDict [(''id'', JNum 1)])\<rparr>
     \<noteq> Some ''application/json''
   \<and> http_status (fst (read_account db_alice
         \<lparr>content_type = None, json_body = Some (JDict [(''id'', JNum 1)])\<rparr>)) = 415
   \<and> http_status (fst (update_account today0 db_alice
         \<lparr>content_type = None, json_body = Some (JDict [(''id'', JNum 1)])\<rparr>)) = 415
   \<and> http_status (fst (delete_account db_alice
         \<lparr>content_type = None, json_body = Some (JDict [(''id'', JNum 1)])\<rparr>)) = 415"
  using content_type_gate [of "\<lparr>content_type = Some ''text/html'', json_body = Some alice\<rparr>"
      today0 db_alice]
    content_type_gate [of "\<lparr>content_type = None, json_body = Some (JDict [(''id'', JNum 1)])\<rparr>"
      today0 db_alice]
  by simp

subsection \<open>C5\<close>

text \<open>
  Claim C5. Deleting the same identifier twice answers 204 with an empty body both times;
  after the first call and after the second the lookup of the identifier finds nothing,
  and the second call removes no row.
\<close>

theorem delete_idempotent:
  assumes "carries_id req v"
  shows "fst (delete_account s req) = Inr (make_response (Raw []) HTTP_204_NO_CONTENT [])
       \<and> fst (delete_account (snd (delete_account s req)) req) =
           Inr (make_response (Raw []) HTTP_204_NO_CONTENT [])
       \<and> fst (find_account (snd (delete_account s req)) v) = None
       \<and> fst (find_account (snd (delete_account (snd (delete_account s req)) req)) v) = None
       \<and> rows (snd (delete_account (snd (delete_account s req)) req)) =
           rows (snd (delete_account s req))"
  by (simp add: delete_account_outcome [OF assms] find_account_after_delete [OF assms]
        delete_account_rows [OF assms])

text \<open>
  C5 at identifier 1 in the database that holds Alice's account under it.
\<close>

theorem delete_idempotent_witness:
  "carries_id (id_request (JNum 1)) (JNum 1)
   \<and> fst (find_account db_alice (JNum 1)) \<noteq> None
   \<and> http_status (fst (delete_account db_alice (id_request (JNum 1)))) = 204
   \<and> http_status (fst (delete_account (snd (delete_account db_alice (id_request (JNum 1))))
        (id_request (JNum 1)))) = 204
   \<and> fst (find_account (snd (delete_account db_alice (id_request (JNum 1)))) (JNum 1)) = None"
proof -
  have h: "carries_id (id_request (JNum 1)) (JNum 1)" by (rule carries_id_request)
  have f: "fst (find_account db_alice (JNum 1)) \<noteq> None"
    by (simp add: db_alice_eq find_account_def)
  show ?thesis using delete_idempotent [OF h, of db_alice] h f by simp
qed

subsection \<open>C6\<close>




subsection \<open>C7\<close>

text \<open>
  Claim C7. A create request with the JSON content type and a valid payload is answered
  with 201, the persisted Account serialized with its newly assigned identifier, and a
  Location header; exactly one row is appended to the storage by one persistence call.
  In a well-formed storage the identifier is new and the lookup finds the new Account.
\<close>

theorem create_persists_one_record:
  assumes "content_type req = Some ''application/json''" and "json_body req = Some p"
    and "valid_payload p"
  shows "\<exists>a. create_accounts today s req =
           (Inr (make_response (Json (serialize a)) HTTP_201_CREATED [(''Location'', ''/'')]),
            s\<lparr>rows := rows s @ [a], next_id := next_id s + 1, calls := calls s @ [Create]\<rparr>)
         \<and> id a = Some (next_id s)
         \<and> field (serialize a) ''id'' = Some (JNum (next_id s))
         \<and> length (rows (snd (create_accounts today s req))) = length (rows s) + 1
         \<and> (wf_db s \<longrightarrow>
              Some (next_id s) \<notin> set (map id (rows s)) \<and>
              fst (find_account (snd (create_accounts today s req)) (JNum (next_id s))) = Some a)"
proof -
  let ?b = "Account\<lparr>name := text_of (field p ''name''),
                 email := text_of (field p ''email''),
                 address := text_of (field p ''address''),
                 phone_number := text_of (field p ''phone_number''),
                 date_joined := date_or today (field p ''date_joined'')\<rparr>"
  let ?a = "fst (create s ?b)"
  have c: "create_accounts today s req =
     (Inr (make_response (Json (serialize ?a)) HTTP_201_CREATED [(''Location'', ''/'')]),
      snd (create s ?b))"
    by (rule create_accounts_valid [OF assms])
  have s1: "snd (create s ?b) =
      s\<lparr>rows := rows s @ [?a], next_id := next_id s + 1, calls := calls s @ [Create]\<rparr>"
    by (simp add: create_def Let_def)
  have i: "id ?a = Some (next_id s)" by (simp add: create_def Let_def)
  have f: "wf_db s \<longrightarrow> Some (next_id s) \<notin> set (map id (rows s)) \<and>
      fst (find_account (snd (create s ?b)) (JNum (next_id s))) = Some ?a"
    using wf_db_fresh [of s] find_account_created [of s ?b] by auto
  have l: "length (rows (snd (create_accounts today s req))) = length (rows s) + 1"
    unfolding c by (simp add: create_def Let_def)
  show ?thesis
    apply (rule exI [of _ ?a])
    using c s1 i f l by simp
qed

text \<open>
  C7 at the creation of Alice's account in the empty database.
\<close>

theorem create_persists_one_record_witness:
  "valid_payload alice
   \<and> (\<exists>a. create_accounts today0 init_db (json_request alice) =
           (Inr (make_response (Json (serialize a)) HTTP_201_CREATED [(''Location'', ''/'')]),
            init_db\<lparr>rows := rows init_db @ [a], next_id := next_id init_db + 1,
                    calls := calls init_db @ [Create]\<rparr>)
         \<and> id a = Some 1)
   \<and> length (rows init_db) = 0
   \<and> length (rows (snd (create_accounts today0 init_db (json_request alice)))) = 1"
proof -
  have n: "next_id init_db = 1" "rows init_db = []" by (simp_all add: init_db_def)
  from create_persists_one_record [of "json_request alice" alice today0 init_db, OF _ _ valid_alice]
  show ?thesis using valid_alice n by auto
qed

subsection \<open>C8\<close>

text \<open>
  Claim C8. List-all answers 200 with the array of every stored Account serialized, the
  empty array for an empty storage. After N Accounts have been created in an empty
  storage and M of them, all different, have been deleted, the array has N - M records,
  each one the record of a create response whose identifier was not deleted.
\<close>

theorem list_all_complete:
  assumes "rows s0 = []" and "list_all valid_payload ps"
    and "create_accounts_bulk today s0 ps = (created, s1)"
    and "distinct vs" and "Some ` set vs \<subseteq> created_id ` set created"
    and "delete_accounts s1 vs = (deleted, s2)"
  shows "fst (read_all_accounts s req) =
           Inr (make_response (Json (JList (map serialize (rows s)))) HTTP_200_OK [])
       \<and> (rows s = [] \<longrightarrow>
            fst (read_all_accounts s req) = Inr (make_response (Json (JList [])) HTTP_200_OK []))
       \<and> (\<exists>arr. fst (read_all_accounts s2 req) =
                  Inr (make_response (Json (JList arr)) HTTP_200_OK [])
              \<and> length arr = length ps - length vs
              \<and> (\<forall>x\<in>set arr. Some x \<in> response_json ` set created
                              \<and> (\<forall>v\<in>set vs. field x ''id'' \<noteq> Some v)))"
proof -
  from create_accounts_bulk_valid [OF assms(2) wf_db_empty [OF assms(1)], of today] assms(3)
  obtain as where as: "created = map created_response as" "rows s1 = rows s0 @ as"
      "length as = length ps" "wf_db s1"
    by auto
  have r1: "rows s1 = as" using as(2) assms(1) by simp
  from wf_db_rows [OF as(4)] have d: "distinct (map id as)"
    and ids: "\<forall>r\<in>set as. \<exists>i. id r = Some i" by (simp_all add: r1)
  have m: "\<forall>v\<in>set vs. \<exists>r\<in>set as. names v r"
  proof
    fix v assume "v \<in> set vs"
    with assms(5) have "Some v \<in> created_id ` set created" by auto
    then obtain a where a: "a \<in> set as" "Some v = created_id (created_response a)"
      by (auto simp: as(1))
    from ids a(1) obtain i where "id a = Some i" by auto
    with a(2) have "names v a" by (simp add: created_id_response names_def)
    with a(1) show "\<exists>r\<in>set as. names v r" by blast
  qed
  have r2: "rows s2 = filter (\<lambda>r. \<forall>v\<in>set vs. \<not> names v r) as"
    using delete_accounts_rows [of s1 vs] assms(6) by (simp add: r1)
  have len: "length (rows s2) = length ps - length vs"
    using filter_names_count [OF d assms(4) m] by (simp add: r2 as(3))
  have each: "\<forall>x\<in>set (map serialize (rows s2)).
      Some x \<in> response_json ` set created \<and> (\<forall>v\<in>set vs. field x ''id'' \<noteq> Some v)"
  proof
    fix x assume "x \<in> set (map serialize (rows s2))"
    then obtain a where a: "a \<in> set as" "\<forall>v\<in>set vs. \<not> names v a" "x = serialize a"
      by (auto simp: r2)
    from ids a(1) obtain i where i: "id a = Some i" by auto
    have "Some x \<in> response_json ` set created"
      using a(1,3) by (auto simp: as(1) response_json_created image_iff)
    moreover have "\<forall>v\<in>set vs. field x ''id'' \<noteq> Some v"
      using a(2) i by (auto simp: a(3) names_def)
    ultimately show "Some x \<in> response_json ` set created \<and>
        (\<forall>v\<in>set vs. field x ''id'' \<noteq> Some v)" by blast
  qed
  have g: "\<exists>arr. fst (read_all_accounts s2 req) =
                  Inr (make_response (Json (JList arr)) HTTP_200_OK [])
              \<and> length arr = length ps - length vs
              \<and> (\<forall>x\<in>set arr. Some x \<in> response_json ` set created
                              \<and> (\<forall>v\<in>set vs. field x ''id'' \<noteq> Some v))"
    apply (rule exI [of _ "map serialize (rows s2)"])
    using each len by (simp add: read_all_accounts_outcome)
  show ?thesis
    using g by (simp add: read_all_accounts_outcome)
qed

text \<open>
  C8 with two Accounts created in the empty database and the first one deleted: one
  record is listed.
\<close>

theorem list_all_complete_witness:
  "rows init_db = [] \<and> list_all valid_payload [alice, bob] \<and> distinct [JNum 1]
   \<and> Some ` set [JNum 1] \<subseteq> created_id ` set (fst (create_accounts_bulk today0 init_db [alice, bob]))
   \<and> (\<exists>arr. fst (read_all_accounts
                 (snd (delete_accounts (snd (create_accounts_bulk today0 init_db [alice, bob]))
                        [JNum 1]))
                 (json_request JNull)) =
               Inr (make_response (Json (JList arr)) HTTP_200_OK [])
           \<and> length arr = 1)"
proof -
  have e: "rows init_db = []" by (simp add: init_db_def)
  have v: "list_all valid_payload [alice, bob]" by (simp add: valid_alice valid_bob)
  have d: "distinct [JNum 1]" by simp
  have c: "create_accounts_bulk today0 init_db [alice, bob] =
      (fst (create_accounts_bulk today0 init_db [alice, bob]),
       snd (create_accounts_bulk today0 init_db [alice, bob]))"
    by simp
  have m: "Some ` set [JNum 1] \<subseteq>
      created_id ` set (fst (create_accounts_bulk today0 init_db [alice, bob]))"
    unfolding create_two by (simp add: created_id_response)
  have x: "delete_accounts (snd (create_accounts_bulk today0 init_db [alice, bob])) [JNum 1] =
      (fst (delete_accounts (snd (create_accounts_bulk today0 init_db [alice, bob])) [JNum 1]),
       snd (delete_accounts (snd (create_accounts_bulk today0 init_db [alice, bob])) [JNum 1]))"
    by simp
  from list_all_complete [OF e v c d m x, of init_db "json_request JNull"]
  have "\<exists>arr. fst (read_all_accounts
                 (snd (delete_accounts (snd (create_accounts_bulk today0 init_db [alice, bob]))
                        [JNum 1]))
                 (json_request JNull)) =
               Inr (make_response (Json (JList arr)) HTTP_200_OK [])
           \<and> length arr = length [alice, bob] - length [JNum (1::int)]"
    by blast
  then have "\<exists>arr. fst (read_all_accounts
                 (snd (delete_accounts (snd (create_accounts_bulk today0 init_db [alice, bob]))
                        [JNum 1]))
                 (json_request JNull)) =
               Inr (make_response (Json (JList arr)) HTTP_200_OK [])
           \<and> length arr = 1"
    by simp
  with e v d m show ?thesis by blast
qed

subsection \<open>C9\<close>

text \<open>
  Claim C9. Read-one, list-all and health leave the storage as it was, whatever the
  request and whatever the outcome (the 404 of read-one included): the rows and the next
  identifier are those of before. Read-one and list-all add their lookup to the log of
  persistence calls and nothing else; health leaves the whole database as it was.
\<close>

theorem reads_leave_storage:
  "rows (snd (read_account s req)) = rows s \<and> next_id (snd (read_account s req)) = next_id s
   \<and> rows (snd (read_all_accounts s req)) = rows s
   \<and> next_id (snd (read_all_accounts s req)) = next_id s
   \<and> snd (health s req) = s"
  by (simp add: read_account_def read_all_accounts_def health_def find_account_def
        all_accounts_def Let_def split: sum.splits option.splits prod.splits)

subsection \<open>C10\<close>

text \<open>
  Claim C10. Whenever create answers with a response, its status is 201 and its only
  header is a Location that is the constant \<open>/\<close>: the identifier of the new
  Account is not in it.
\<close>

theorem create_location_placeholder:
  assumes "create_accounts today s req = (Inr r, s')"
  shows "status r = HTTP_201_CREATED \<and> headers r = [(''Location'', ''/'')]
       \<and> map_of (headers r) ''Location'' = Some ''/''"
  using assms
  by (auto simp: create_accounts_def make_response_def Let_def
           split: sum.splits prod.splits)

text \<open>
  C10 at the creation of Alice's account in the empty database.
\<close>

theorem create_location_placeholder_witness:
  "create_accounts today0 init_db (json_request alice) =
     (Inr \<lparr>status = 201,
           body = Json (JDict [(''id'', JNum 1), (''name'', JText ''Alice''),
             (''email'', JText ''a@x.com''), (''address'', JText ''1 Main St''),
             (''phone_number'', JText ''555-1111''), (''date_joined'', JDate (Date 2024 5 17))]),
           headers = [(''Location'', ''/'')]\<rparr>,
      \<lparr>rows = [\<lparr>id = Some 1, name = ''Alice'', email = ''a@x.com'', address = ''1 Main St'',
                 phone_number = ''555-1111'', date_joined = Date 2024 5 17\<rparr>],
       next_id = 2, calls = [Create]\<rparr>)
   \<and> map_of (headers \<lparr>status = 201,
           body = Json (JDict [(''id'', JNum 1), (''name'', JText ''Alice''),
             (''email'', JText ''a@x.com''), (''address'', JText ''1 Main St''),
             (''phone_number'', JText ''555-1111''), (''date_joined'', JDate (Date 2024 5 17))]),
           headers = [(''Location'', ''/'')]\<rparr>) ''Location'' = Some ''/''"
  using create_location_placeholder [OF create_alice] create_alice by simp

end
